theory Spec2Isabelle
  imports Main "HOL-Library.Word"
begin

section \<open>JavaScript values shared by both scripts\<close>

text \<open>
  A JavaScript string is a sequence of UTF-16 code units. The kana texts of the
  dictionary are kept as such, because \<open>convert\<close> does arithmetic on code units.
  Paths, URLs and file contents are only compared, split at \<open>/\<close> and joined, so they
  are plain \<open>string\<close>s.
\<close>

type_synonym jsstring = "16 word list"

definition of_ascii :: "string \<Rightarrow> jsstring" where
  "of_ascii s = map (\<lambda>c. of_nat (of_char c)) s"

text \<open>
  How a promise of the scripts ends: it is resolved with a value, or an exception
  escapes from a callback (nothing catches it and the process dies), or nothing ever
  settles it.
\<close>

datatype 'a outcome = Resolved 'a | Uncaught | Pending

text \<open>\<open>charCodeAt\<close> yields \<open>NaN\<close> outside the string; \<open>fromCharCode\<close> applies
  \<open>ToUint16\<close> to its argument, which sends \<open>NaN\<close> to 0.\<close>

definition charCodeAt :: "jsstring \<Rightarrow> nat \<Rightarrow> nat option" where
  "charCodeAt s i = (if i < length s then Some (unat (s ! i)) else None)"

definition fromCharCode :: "nat option \<Rightarrow> jsstring" where
  "fromCharCode n = (case n of None \<Rightarrow> [0] | Some k \<Rightarrow> [of_nat k])"

text \<open>
  \<open>s.replace(/[...]/g, f)\<close> for a regular expression that is one character class
  without the \<open>u\<close> flag: every code unit of the class is a match of length one and is
  replaced by what the callback returns for it; the other code units are copied.
\<close>

fun replace_class :: "(16 word \<Rightarrow> bool) \<Rightarrow> (jsstring \<Rightarrow> jsstring) \<Rightarrow> jsstring \<Rightarrow> jsstring" where
  "replace_class cls f [] = []"
| "replace_class cls f (c # cs) =
     (if cls c then f [c] @ replace_class cls f cs else c # replace_class cls f cs)"

text \<open>The code points of a string: a high surrogate followed by a low surrogate is one
  code point above U+FFFF, every other code unit is a code point of its own.\<close>

definition is_high_surrogate :: "16 word \<Rightarrow> bool" where
  "is_high_surrogate c \<longleftrightarrow> 0xD800 \<le> c \<and> c \<le> 0xDBFF"

definition is_low_surrogate :: "16 word \<Rightarrow> bool" where
  "is_low_surrogate c \<longleftrightarrow> 0xDC00 \<le> c \<and> c \<le> 0xDFFF"

fun codepoints :: "jsstring \<Rightarrow> nat list" where
  "codepoints [] = []"
| "codepoints [c] = [unat c]"
| "codepoints (h # l # cs) =
     (if is_high_surrogate h \<and> is_low_surrogate l
      then (0x10000 + (unat h - 0xD800) * 0x400 + (unat l - 0xDC00)) # codepoints cs
      else unat h # codepoints (l # cs))"

section \<open>convert: the hiragana index\<close>

subsection \<open>Hiragana to katakana\<close>

text \<open>The character class of U+3040 to U+309F and the callback
  \<open>match => String.fromCharCode(match.charCodeAt(0) + 0x60)\<close> of \<open>convert\<close>.\<close>

definition hiragana_class :: "16 word \<Rightarrow> bool" where
  "hiragana_class c \<longleftrightarrow> 0x3040 \<le> c \<and> c \<le> 0x309F"

definition shift_match :: "jsstring \<Rightarrow> jsstring" where
  "shift_match m = fromCharCode (map_option (\<lambda>k. k + 0x60) (charCodeAt m 0))"

definition katakana_of :: "jsstring \<Rightarrow> jsstring" where
  "katakana_of text = replace_class hiragana_class shift_match text"

text \<open>What the replacement does to one code unit, and to one code point.\<close>

definition shift_unit :: "16 word \<Rightarrow> 16 word" where
  "shift_unit c = (if hiragana_class c then c + 0x60 else c)"

definition shift_codepoint :: "nat \<Rightarrow> nat" where
  "shift_codepoint p = (if 0x3040 \<le> p \<and> p \<le> 0x309F then p + 0x60 else p)"

subsection \<open>The index under construction\<close>

text \<open>
  A JavaScript \<open>Set\<close> keeps its members in insertion order and \<open>add\<close> does nothing
  for a member that is already there. It is a list here; spreading it into an array
  (\<open>[...value.katakana]\<close>) gives the same list.
\<close>

definition Set_add :: "'a \<Rightarrow> 'a list \<Rightarrow> 'a list" where
  "Set_add x s = (if x \<in> set s then s else s @ [x])"

record bucket =
  katakana :: "jsstring list"
  kanji :: "jsstring list"

text \<open>
  \<open>h2kk\<close> is an object literal \<open>{}\<close>: a map from property names to buckets. Reading
  \<open>h2kk[key]\<close> finds an own property first and then the properties that every object
  inherits from \<open>Object.prototype\<close>, which are functions (and the prototype itself for
  \<open>__proto__\<close>) and so are truthy.
\<close>

type_synonym h2kk = "jsstring \<rightharpoonup> bucket"

definition Object_prototype_keys :: "jsstring list" where
  "Object_prototype_keys = map of_ascii
     [''constructor'', ''__defineGetter__'', ''__defineSetter__'', ''hasOwnProperty'',
      ''__lookupGetter__'', ''__lookupSetter__'', ''isPrototypeOf'',
      ''propertyIsEnumerable'', ''toString'', ''valueOf'', ''__proto__'',
      ''toLocaleString'']"

datatype property = Own bucket | Inherited | Undefined

definition get_property :: "h2kk \<Rightarrow> jsstring \<Rightarrow> property" where
  "get_property h key =
     (case h key of
        Some b \<Rightarrow> Own b
      | None \<Rightarrow> if key \<in> set Object_prototype_keys then Inherited else Undefined)"

definition truthy :: "property \<Rightarrow> bool" where
  "truthy v \<longleftrightarrow> v \<noteq> Undefined"

text \<open>The input document: \<open>{version, dictDate, words: [{kanji: [{text}], kana: [{text}]}]}\<close>.
  The \<open>kanji\<close> and \<open>kana\<close> properties of an entry may be missing.\<close>

record element =
  elem_text :: jsstring

record entry =
  entry_kanji :: "element list option"
  entry_kana :: "element list option"

record jmdict =
  version :: jsstring
  dictDate :: jsstring
  words :: "entry list"

record final_output =
  out_version :: jsstring
  out_dictDate :: jsstring
  out_words :: "jsstring \<rightharpoonup> bucket"

text \<open>\<open>forEach\<close> with a callback that may throw: the first exception ends the loop.\<close>

fun forEach :: "('a \<Rightarrow> 's \<Rightarrow> 's option) \<Rightarrow> 'a list \<Rightarrow> 's \<Rightarrow> 's option" where
  "forEach f [] s = Some s"
| "forEach f (x # xs) s = (case f x s of None \<Rightarrow> None | Some s' \<Rightarrow> forEach f xs s')"

text \<open>
  The body of \<open>kanaElements.forEach\<close>. When \<open>h2kk[hiragana]\<close> is an inherited
  property no bucket is created, \<open>h2kk[hiragana].katakana\<close> is \<open>undefined\<close> and calling
  \<open>add\<close> on it throws a TypeError (\<open>None\<close>).
\<close>

definition add_kana :: "jsstring list \<Rightarrow> element \<Rightarrow> h2kk \<Rightarrow> h2kk option" where
  "add_kana kanjiList kana h =
     (let hiragana = elem_text kana;
          kata = katakana_of (elem_text kana);
          h1 = (if \<not> truthy (get_property h hiragana)
                then h(hiragana \<mapsto> \<lparr>katakana = [], kanji = []\<rparr>) else h)
      in case get_property h1 hiragana of
           Own b \<Rightarrow>
             Some (h1(hiragana \<mapsto>
               b\<lparr>katakana := Set_add kata (katakana b),
                 kanji := fold Set_add kanjiList (kanji b)\<rparr>))
         | Inherited \<Rightarrow> None
         | Undefined \<Rightarrow> None)"

text \<open>The body of \<open>jmdictData.words.forEach\<close>; \<open>entry.kanji || []\<close> and
  \<open>entry.kana || []\<close> replace a missing property by the empty array.\<close>

definition process_entry :: "entry \<Rightarrow> h2kk \<Rightarrow> h2kk option" where
  "process_entry e h =
     (let kanjiElements = (case entry_kanji e of None \<Rightarrow> [] | Some ks \<Rightarrow> ks);
          kanaElements = (case entry_kana e of None \<Rightarrow> [] | Some ks \<Rightarrow> ks);
          kanjiList = map elem_text kanjiElements
      in forEach (add_kana kanjiList) kanaElements h)"

definition build_h2kk :: "entry list \<Rightarrow> h2kk option" where
  "build_h2kk ws = forEach process_entry ws Map.empty"

text \<open>\<open>Object.fromEntries(Object.entries(h2kk).map(...))\<close>: the same keys, each set
  spread into an array.\<close>

definition words_of :: "h2kk \<Rightarrow> (jsstring \<rightharpoonup> bucket)" where
  "words_of h = (\<lambda>key. map_option (\<lambda>v. \<lparr>katakana = katakana v, kanji = kanji v\<rparr>) (h key))"

definition make_output :: "jmdict \<Rightarrow> h2kk \<Rightarrow> final_output" where
  "make_output jmdictData h =
     \<lparr>out_version = version jmdictData, out_dictDate = dictDate jmdictData,
      out_words = words_of h\<rparr>"

section \<open>Paths and the file system\<close>

text \<open>
  \<open>path.join\<close> of Node on a POSIX system: the non-empty arguments are joined with
  \<open>/\<close> and the result is normalised, which drops empty and \<open>.\<close> segments and lets a
  \<open>..\<close> segment remove the segment before it. Above the start of a relative path
  \<open>..\<close> is kept; above the root it is dropped.
\<close>

fun split_slash :: "string \<Rightarrow> string list" where
  "split_slash [] = [ [] ]"
| "split_slash (c # cs) =
     (if c = CHR ''/'' then [] # split_slash cs
      else (case split_slash cs of [] \<Rightarrow> [ [c] ] | w # ws \<Rightarrow> (c # w) # ws))"

fun join_slash :: "string list \<Rightarrow> string" where
  "join_slash [] = []"
| "join_slash [w] = w"
| "join_slash (w # v # ws) = w @ ''/'' @ join_slash (v # ws)"

fun normalizeString :: "bool \<Rightarrow> string list \<Rightarrow> string list \<Rightarrow> string list" where
  "normalizeString allowAboveRoot [] res = rev res"
| "normalizeString allowAboveRoot (seg # segs) res =
     (if seg = [] \<or> seg = ''.'' then normalizeString allowAboveRoot segs res
      else if seg = ''..'' then
        (case res of
           lastSeg # below \<Rightarrow>
             if lastSeg \<noteq> ''..'' then normalizeString allowAboveRoot segs below
             else if allowAboveRoot then normalizeString allowAboveRoot segs (''..'' # res)
             else normalizeString allowAboveRoot segs res
         | [] \<Rightarrow>
             if allowAboveRoot then normalizeString allowAboveRoot segs [''..'']
             else normalizeString allowAboveRoot segs [])
      else normalizeString allowAboveRoot segs (seg # res))"

definition posix_normalize :: "string \<Rightarrow> string" where
  "posix_normalize p =
     (if p = [] then ''.''
      else
        let isAbsolute = (hd p = CHR ''/'');
            trailingSeparator = (last p = CHR ''/'');
            q = join_slash (normalizeString (\<not> isAbsolute) (split_slash p) [])
        in if q = [] then (if isAbsolute then ''/'' else if trailingSeparator then ''./'' else ''.'')
           else (if isAbsolute then ''/'' else []) @ q @ (if trailingSeparator then ''/'' else []))"

definition path_join :: "string list \<Rightarrow> string" where
  "path_join args =
     (case filter (\<lambda>a. a \<noteq> []) args of [] \<Rightarrow> ''.'' | a # as \<Rightarrow> posix_normalize (join_slash (a # as)))"

text \<open>\<open>startsWith\<close> and \<open>endsWith\<close> of JavaScript strings.\<close>

definition startsWith :: "string \<Rightarrow> string \<Rightarrow> bool" where
  "startsWith s p \<longleftrightarrow> take (length p) s = p"

definition endsWith :: "string \<Rightarrow> string \<Rightarrow> bool" where
  "endsWith s p \<longleftrightarrow> length p \<le> length s \<and> drop (length s - length p) s = p"

text \<open>What the scripts print, one constructor for each message of the source.\<close>

datatype message =
    InvalidFilename              \<comment> \<open>Please provide a valid filename to convert!\<close>
  | Converting string            \<comment> \<open>Converting source dictionary ...\<close>
  | InputMissing                 \<comment> \<open>The input file path does not exists.\<close>
  | ReleaseFolderMissing         \<comment> \<open>The releaser folder does not exists.\<close>
  | ReadError                    \<comment> \<open>Error reading the input file:\<close>
  | ParseError                   \<comment> \<open>Error parsing the source dictionary json data.\<close>
  | WriteError                   \<comment> \<open>Error writing the simple dictionary JSON file:\<close>
  | Saved string                 \<comment> \<open>The simple dictionary JSON file was saved to: ...\<close>
  | CompressError                \<comment> \<open>Error compressing the file:\<close>
  | GzSaved string               \<comment> \<open>The gz compressed version ... was saved to: ...\<close>
  | InvalidTag                   \<comment> \<open>Please supply a valid release tag name.\<close>
  | Updating string              \<comment> \<open>Updating source dictionary to release tag ...\<close>
  | NoAssetFor string            \<comment> \<open>Could not find any assets starting with ...\<close>
  | CouldNotDownload string      \<comment> \<open>Could not download ...\<close>
  | RemoveError                  \<comment> \<open>the error of rmSync\<close>
  | NoAssets                     \<comment> \<open>Warning: No assets found for the latest release of ...\<close>
  | JsonError                    \<comment> \<open>Error parsing JSON.\<close>
  | ApiStatus nat                \<comment> \<open>GitHub API request failed with status ...\<close>
  | FetchError                   \<comment> \<open>Error fetching release data.\<close>
  | InvalidUrl                   \<comment> \<open>Provide a valid file url!\<close>
  | NoDownloadDir string         \<comment> \<open>Download directory ... does not exist.\<close>
  | TooManyRedirects             \<comment> \<open>[downloadAsset]: Too many redirects\<close>
  | Downloaded string nat string \<comment> \<open>Downloaded ... (via ... redirects) to ...\<close>
  | WriteStreamError             \<comment> \<open>Error writing file: ...\<close>
  | DownloadStatus nat           \<comment> \<open>Download failed with status code: ...\<close>
  | DownloadError                \<comment> \<open>Error during download: ...\<close>
  | UnhandledError               \<comment> \<open>Unhandled error:\<close>
  | NoArchive                    \<comment> \<open>Archive file does not exist!\<close>
  | NoDestination                \<comment> \<open>Destination directory does not exist!\<close>
  | PathTraversal string         \<comment> \<open>Attempted path traversal: ...\<close>
  | StreamError                  \<comment> \<open>Error during ...\<close>
  | Unpacked nat string          \<comment> \<open>Unpacked ... files to ...\<close>

text \<open>An entry of a tar archive as the \<open>tar\<close> package presents it.\<close>

datatype entry_type = File | Directory | SymbolicLink | Link | OtherType

record tar_entry =
  entry_type :: entry_type
  entry_path :: string

text \<open>
  The part of the world the scripts touch: regular files with their contents,
  directories, the console, and the archive entries that the extraction has let through
  to \<open>tar\<close> for unpacking below the destination directory (what \<open>tar\<close> then writes is
  not modelled).
\<close>

record world =
  files :: "string \<rightharpoonup> string"
  dirs :: "string set"
  console :: "message list"
  unpacked :: "tar_entry list"

definition say :: "message \<Rightarrow> world \<Rightarrow> world" where
  "say m w = w\<lparr>console := console w @ [m]\<rparr>"

definition put_file :: "string \<Rightarrow> string \<Rightarrow> world \<Rightarrow> world" where
  "put_file p data w = w\<lparr>files := (files w)(p \<mapsto> data)\<rparr>"

text \<open>\<open>fs.existsSync\<close> answers \<open>false\<close> for an argument that is not a path.\<close>

datatype jsval = JStr string | JBool bool

definition strict_eq :: "jsval \<Rightarrow> jsval \<Rightarrow> bool" where
  "strict_eq a b \<longleftrightarrow> a = b"

definition existsSync :: "world \<Rightarrow> jsval \<Rightarrow> bool" where
  "existsSync w v =
     (case v of JStr p \<Rightarrow> p \<in> dom (files w) \<or> p \<in> dirs w | JBool b \<Rightarrow> False)"

section \<open>convert: reading, indexing and writing\<close>

definition dataFolder :: string where "dataFolder = ''../data''"
definition releaseFolder :: string where "releaseFolder = ''../release''"
definition outputFileName :: string where "outputFileName = ''simple.min.json''"
definition createGzipVersion :: bool where "createGzipVersion = True"

text \<open>
  What the run time provides: the directory of the script, \<open>JSON.parse\<close> of the UTF-8
  text of a file (\<open>None\<close> for a syntax error), \<open>JSON.stringify\<close> and gzip compression.
\<close>

record runtime =
  dirname :: string
  json_parse :: "string \<Rightarrow> jmdict option"
  json_stringify :: "final_output \<Rightarrow> string"
  gzip_bytes :: "string \<Rightarrow> string"

text \<open>
  What can go wrong outside the script: \<open>readFile\<close> and \<open>writeFile\<close> may report an
  error, and the chain \<open>input.pipe(gzip).pipe(output)\<close> ends with the event \<open>finish\<close>
  or with an \<open>error\<close> event on one of its streams, which leaves some or no compressed
  file behind.
\<close>

datatype stream_end = Finish | ErrorEvent "string option"

record faults =
  read_fails :: "string \<Rightarrow> bool"
  write_fails :: "string \<Rightarrow> bool"
  gzip_end :: stream_end

text \<open>The listener \<open>(error) => {...}\<close> that \<open>convert\<close> registers for \<open>finish\<close>.\<close>

definition on_finish :: "unit option \<Rightarrow> string \<Rightarrow> world \<Rightarrow> bool outcome \<times> world" where
  "on_finish error gzippedOutputFilePath w =
     (if error \<noteq> None then (Resolved False, say CompressError w)
      else (Resolved True, say (GzSaved gzippedOutputFilePath) w))"

text \<open>
  The compression stage. \<open>finish\<close> is emitted without an argument, so the listener
  runs with \<open>error\<close> undefined. \<open>convert\<close> registers no listener for \<open>error\<close>: such an
  event is thrown as an uncaught exception.
\<close>

definition compress :: "runtime \<Rightarrow> faults \<Rightarrow> string \<Rightarrow> string \<Rightarrow> world \<Rightarrow> bool outcome \<times> world" where
  "compress R F outputFilePath gzippedOutputFilePath w =
     (case gzip_end F of
        Finish \<Rightarrow>
          (case files w outputFilePath of
             Some content \<Rightarrow>
               on_finish None gzippedOutputFilePath
                 (put_file gzippedOutputFilePath (gzip_bytes R content) w)
           | None \<Rightarrow> (Uncaught, w))
      | ErrorEvent leftover \<Rightarrow>
          (Uncaught, w\<lparr>files := (files w)(gzippedOutputFilePath := leftover)\<rparr>))"

text \<open>The callback of \<open>fs.writeFile\<close>, with the write itself.\<close>

definition write_output ::
    "runtime \<Rightarrow> faults \<Rightarrow> string \<Rightarrow> string \<Rightarrow> string \<Rightarrow> world \<Rightarrow> bool outcome \<times> world" where
  "write_output R F outputFilePath gzippedOutputFilePath jsonString w =
     (if write_fails F outputFilePath then (Resolved False, say WriteError w)
      else
        let w1 = say (Saved outputFilePath) (put_file outputFilePath jsonString w)
        in if createGzipVersion = False then (Resolved True, w1)
           else compress R F outputFilePath gzippedOutputFilePath w1)"

text \<open>The callback of \<open>fs.readFile\<close>. It runs outside the \<open>try\<close> of \<open>convert\<close>, so a
  TypeError of the indexing loop is not caught.\<close>

definition index_and_write ::
    "runtime \<Rightarrow> faults \<Rightarrow> string \<Rightarrow> string \<Rightarrow> string \<Rightarrow> world \<Rightarrow> bool outcome \<times> world" where
  "index_and_write R F outputFilePath gzippedOutputFilePath data w =
     (case json_parse R data of
        None \<Rightarrow> (Resolved False, say ParseError w)
      | Some jmdictData \<Rightarrow>
          (case build_h2kk (words jmdictData) of
             None \<Rightarrow> (Uncaught, w)
           | Some h \<Rightarrow>
               write_output R F outputFilePath gzippedOutputFilePath
                 (json_stringify R (make_output jmdictData h)) w))"

definition inputFilePath :: "runtime \<Rightarrow> string \<Rightarrow> string" where
  "inputFilePath R fileName = path_join [dirname R, dataFolder, fileName]"

definition outputFilePath :: "runtime \<Rightarrow> string" where
  "outputFilePath R = path_join [dirname R, releaseFolder, outputFileName]"

text \<open>\<open>convert(fileName)\<close>; the argument is \<open>None\<close> when it is not a string.\<close>

definition convert :: "runtime \<Rightarrow> faults \<Rightarrow> string option \<Rightarrow> world \<Rightarrow> bool outcome \<times> world" where
  "convert R F fileName w =
     (case fileName of
        None \<Rightarrow> (Resolved False, say InvalidFilename w)
      | Some f \<Rightarrow>
          if length f = 0 then (Resolved False, say InvalidFilename w)
          else
            let w1 = say (Converting f) w;
                gzippedOutputFilePath = outputFilePath R @ ''.gz''
            in if existsSync w1 (JStr (inputFilePath R f)) = False
               then (Resolved False, say InputMissing w1)
               else if existsSync w1 (JBool (strict_eq (JStr releaseFolder) (JBool False)))
               then (Resolved False, say ReleaseFolderMissing w1)
               else
                 (case (if read_fails F (inputFilePath R f) then None
                        else files w1 (inputFilePath R f)) of
                    None \<Rightarrow> (Resolved False, say ReadError w1)
                  | Some data \<Rightarrow>
                      index_and_write R F (outputFilePath R) gzippedOutputFilePath data w1))"

section \<open>update: resolving, downloading and unpacking\<close>

definition owner :: string where "owner = ''scriptin''"
definition repo :: string where "repo = ''jmdict-simplified''"
definition prefix :: string where "prefix = ''jmdict-all-''"
definition extension :: string where "extension = ''json.tgz''"

record asset =
  name :: string
  browser_download_url :: string

record release =
  assets :: "asset list option"

text \<open>The result of one \<open>https.get\<close>: an \<open>error\<close> event, or a response with its status
  code, its \<open>Location\<close> header and its body.\<close>

datatype response = RequestError | Response nat "string option" string

text \<open>
  What \<open>update\<close> meets outside the script: the directory of the script,
  \<open>encodeURIComponent\<close>, the answer of the release API to a URL, \<open>JSON.parse\<close> of the
  metadata (\<open>None\<close> when it throws), the results of the successive download requests in
  the order they are issued, the last path segment of a URL, whether the write stream of
  the download ends with \<open>error\<close> instead of \<open>finish\<close>, the entries that gunzip and the
  tar parser read from the bytes of an archive and whether the pipeline fails after
  them, whether \<open>rmSync\<close> throws, and which strings \<open>https.get\<close> accepts as its URL:
  those that parse as an absolute URL with the protocol \<open>https:\<close>. For any other string
  \<open>https.get\<close> throws a TypeError and issues no request.
\<close>

record net =
  script_dir :: string
  encodeURIComponent :: "string \<Rightarrow> string"
  api_get :: "string \<Rightarrow> response"
  parse_release :: "string \<Rightarrow> release option"
  download_chain :: "response list"
  url_basename :: "string \<Rightarrow> string"
  write_stream_fails :: bool
  untar :: "string \<Rightarrow> tar_entry list \<times> bool"
  rm_fails :: bool
  https_url :: "string \<Rightarrow> bool"

text \<open>A string argument that may be \<open>null\<close> or \<open>undefined\<close> is truthy when it is a
  non-empty string.\<close>

definition truthy_string :: "string option \<Rightarrow> bool" where
  "truthy_string v = (case v of None \<Rightarrow> False | Some s \<Rightarrow> s \<noteq> [])"

subsection \<open>getAsset\<close>

text \<open>The callback of \<open>releaseData.assets.filter\<close>.\<close>

definition asset_filter :: "string option \<Rightarrow> string option \<Rightarrow> asset \<Rightarrow> bool" where
  "asset_filter pre ext a =
     (let filename = name a;
          prefixMatch = (if truthy_string pre then startsWith filename (the pre) else True);
          extensionMatch = (if truthy_string ext then endsWith filename (the ext) else True)
      in prefixMatch \<and> extensionMatch)"

definition apiUrl :: "net \<Rightarrow> string \<Rightarrow> string \<Rightarrow> string \<Rightarrow> string" where
  "apiUrl N own rep tag =
     (if tag = ''latest''
      then ''https://api.github.com/repos/'' @ own @ ''/'' @ rep @ ''/releases/latest''
      else ''https://api.github.com/repos/'' @ own @ ''/'' @ rep @ ''/releases/tags/''
             @ encodeURIComponent N tag)"

definition getAsset ::
    "net \<Rightarrow> string \<Rightarrow> string \<Rightarrow> string option \<Rightarrow> string option \<Rightarrow> string \<Rightarrow> world
      \<Rightarrow> asset option outcome \<times> world" where
  "getAsset N own rep pre ext tag w =
     (case api_get N (apiUrl N own rep tag) of
        RequestError \<Rightarrow> (Resolved None, say FetchError w)
      | Response statusCode location data \<Rightarrow>
          if 200 \<le> statusCode \<and> statusCode < 300 then
            (case parse_release N data of
               None \<Rightarrow> (Resolved None, say JsonError w)
             | Some releaseData \<Rightarrow>
                 (case assets releaseData of
                    None \<Rightarrow> (Resolved None, say NoAssets w)
                  | Some listed \<Rightarrow>
                      if length listed = 0 then (Resolved None, say NoAssets w)
                      else
                        let matchingAssets = filter (asset_filter pre ext) listed
                        in if length matchingAssets > 0
                           then (Resolved (Some (matchingAssets ! 0)), w)
                           else (Resolved None, w)))
          else (Resolved None, say (ApiStatus statusCode) w))"

subsection \<open>downloadAsset\<close>

text \<open>
  \<open>doDownload\<close> with the results of the requests still to come. The result \<open>None\<close>
  is the TypeError that \<open>https.get\<close> throws for a URL it does not accept. The call for
  a redirect is made in the response callback, where nothing catches the exception. A
  request whose result never arrives leaves the promise pending. On \<open>error\<close> of the
  write stream the file is unlinked.
\<close>

fun doDownload ::
    "net \<Rightarrow> string \<Rightarrow> string option \<Rightarrow> response list \<Rightarrow> string \<Rightarrow> nat \<Rightarrow> world
      \<Rightarrow> (string option outcome \<times> world) option" where
  "doDownload N downloadDir filename [] downloadURL redirectCount w =
     (if redirectCount > 5 then Some (Resolved None, say TooManyRedirects w)
      else if \<not> https_url N downloadURL then None
      else Some (Pending, w))"
| "doDownload N downloadDir filename (r # chain) downloadURL redirectCount w =
     (if redirectCount > 5 then Some (Resolved None, say TooManyRedirects w)
      else if \<not> https_url N downloadURL then None
      else
        (case r of
           RequestError \<Rightarrow> Some (Resolved None, say DownloadError w)
         | Response statusCode location body \<Rightarrow>
             if 200 \<le> statusCode \<and> statusCode < 300 then
               let fileName = (if truthy_string filename then the filename
                               else url_basename N downloadURL);
                   filePath = path_join [downloadDir, fileName]
               in if write_stream_fails N
                  then Some (Resolved None,
                             say WriteStreamError (w\<lparr>files := (files w)(filePath := None)\<rparr>))
                  else Some (Resolved (Some filePath),
                        say (Downloaded (case filename of None \<Rightarrow> ''undefined'' | Some f \<Rightarrow> f)
                               redirectCount filePath)
                          (put_file filePath body w))
             else if 300 \<le> statusCode \<and> statusCode < 400 \<and> truthy_string location
             then (case doDownload N downloadDir filename chain (the location)
                          (redirectCount + 1) w of
                     None \<Rightarrow> Some (Uncaught, w)
                   | Some result \<Rightarrow> Some result)
             else Some (Resolved None, say (DownloadStatus statusCode) w)))"

text \<open>\<open>downloadAsset(fileUrl, downloadDir, filename)\<close>; \<open>fileUrl\<close> is \<open>None\<close> when it is
  not a string. The first call of \<open>doDownload\<close> is inside the \<open>try\<close>, whose \<open>catch\<close>
  resolves with \<open>null\<close>.\<close>

definition downloadAsset ::
    "net \<Rightarrow> string option \<Rightarrow> string \<Rightarrow> string option \<Rightarrow> world \<Rightarrow> string option outcome \<times> world" where
  "downloadAsset N fileUrl downloadDir filename w =
     (case fileUrl of
        None \<Rightarrow> (Resolved None, say InvalidUrl w)
      | Some u \<Rightarrow>
          if length u = 0 then (Resolved None, say InvalidUrl w)
          else if \<not> existsSync w (JStr downloadDir)
          then (Resolved None, say (NoDownloadDir downloadDir) w)
          else
            (case doDownload N downloadDir filename (download_chain N) u 0 w of
               None \<Rightarrow> (Resolved None, say UnhandledError w)
             | Some result \<Rightarrow> result))"

subsection \<open>unpackAsset\<close>

text \<open>The \<open>filter\<close> option given to \<open>tar.extract\<close>: \<open>False\<close> makes \<open>tar\<close> skip the entry.\<close>

definition traversal_filter :: "string \<Rightarrow> string \<Rightarrow> world \<Rightarrow> bool \<times> world" where
  "traversal_filter destinationDir filePath w =
     (let absolutePath = path_join [destinationDir, filePath]
      in if \<not> startsWith absolutePath destinationDir
         then (False, say (PathTraversal filePath) w)
         else (True, w))"

text \<open>The \<open>onentry\<close> option: it is called for the entries that pass the filter.\<close>

definition onentry :: "tar_entry \<Rightarrow> string list \<Rightarrow> string list" where
  "onentry e filenames =
     (if entry_type e = File \<or> entry_type e = Directory
      then filenames @ [entry_path e] else filenames)"

text \<open>\<open>tar.extract\<close> takes the entries in archive order: the filter decides, and an
  entry that passes is announced to \<open>onentry\<close> and unpacked.\<close>

fun extract_entries :: "string \<Rightarrow> tar_entry list \<Rightarrow> string list \<Rightarrow> world \<Rightarrow> string list \<times> world" where
  "extract_entries destinationDir [] filenames w = (filenames, w)"
| "extract_entries destinationDir (e # es) filenames w =
     (case traversal_filter destinationDir (entry_path e) w of
        (False, w') \<Rightarrow> extract_entries destinationDir es filenames w'
      | (True, w') \<Rightarrow>
          extract_entries destinationDir es (onentry e filenames)
            (w'\<lparr>unpacked := unpacked w' @ [e]\<rparr>))"

definition unpackAsset :: "net \<Rightarrow> string \<Rightarrow> string \<Rightarrow> world \<Rightarrow> string list option outcome \<times> world" where
  "unpackAsset N tarGzFilePath destinationDir w =
     (if existsSync w (JStr tarGzFilePath) = False then (Resolved None, say NoArchive w)
      else if existsSync w (JStr destinationDir) = False then (Resolved None, say NoDestination w)
      else
        (case files w tarGzFilePath of
           None \<Rightarrow> (Resolved None, say StreamError w)
         | Some bytes \<Rightarrow>
             (case extract_entries destinationDir (fst (untar N bytes)) [] w of
                (filenames, w') \<Rightarrow>
                  if snd (untar N bytes) then (Resolved None, say StreamError w')
                  else (Resolved (Some filenames),
                        say (Unpacked (length filenames) destinationDir) w'))))"

subsection \<open>update\<close>

text \<open>\<open>await\<close>: the rest of an async function runs once the promise is resolved.\<close>

definition await ::
    "'a outcome \<times> world \<Rightarrow> ('a \<Rightarrow> world \<Rightarrow> 'b outcome \<times> world) \<Rightarrow> 'b outcome \<times> world" where
  "await p k =
     (case p of
        (Resolved v, w) \<Rightarrow> k v w
      | (Uncaught, w) \<Rightarrow> (Uncaught, w)
      | (Pending, w) \<Rightarrow> (Pending, w))"

text \<open>The last statement of \<open>update\<close>:
  \<open>(Array.isArray(files) && files.length > 0) ? files[0] : null\<close>.\<close>

definition first_or_null :: "string list option \<Rightarrow> string option" where
  "first_or_null fs =
     (case fs of None \<Rightarrow> None | Some l \<Rightarrow> if length l > 0 then Some (l ! 0) else None)"

text \<open>\<open>update(tag)\<close>; the argument is \<open>None\<close> when it is not a string.\<close>

definition update :: "net \<Rightarrow> string option \<Rightarrow> world \<Rightarrow> string option outcome \<times> world" where
  "update N tag w =
     (case tag of
        None \<Rightarrow> (Resolved None, say InvalidTag w)
      | Some t \<Rightarrow>
          await (getAsset N owner repo (Some prefix) (Some extension) t (say (Updating t) w))
            (\<lambda>found w1.
               case found of
                 None \<Rightarrow> (Resolved None, say (NoAssetFor t) w1)
               | Some a \<Rightarrow>
                   let url = browser_download_url a;
                       fileName = name a;
                       outputFolder = path_join [script_dir N, dataFolder]
                   in await (downloadAsset N (Some url) outputFolder (Some fileName) w1)
                        (\<lambda>downloaded w2.
                           case downloaded of
                             None \<Rightarrow> (Resolved None, say (CouldNotDownload fileName) w2)
                           | Some file \<Rightarrow>
                               await (unpackAsset N file outputFolder w2)
                                 (\<lambda>fs w3.
                                    let filePath = path_join [outputFolder, fileName]
                                    in if existsSync w3 (JStr filePath)
                                       then if rm_fails N
                                            then (Resolved None, say RemoveError w3)
                                            else (Resolved (first_or_null fs),
                                                  w3\<lparr>files := (files w3)(filePath := None)\<rparr>)
                                       else (Resolved (first_or_null fs), w3)))))"

section \<open>A sample run\<close>

text \<open>
  The dictionary of one entry (the kanji U+611B, read U+3042 U+3044), a run time whose
  JSON functions are stand-ins, and a world with the source file in the data folder
  and no release folder.
\<close>

definition sample_doc :: jmdict where
  "sample_doc =
     \<lparr>version = of_ascii ''1'', dictDate = of_ascii ''2024-01-01'',
      words = [\<lparr>entry_kanji = Some [\<lparr>elem_text = [0x611B]\<rparr>],
                entry_kana = Some [\<lparr>elem_text = [0x3042, 0x3044]\<rparr>]\<rparr>]\<rparr>"

definition sample_runtime :: runtime where
  "sample_runtime =
     \<lparr>dirname = ''/repo/src'',
      json_parse = (\<lambda>s. if s = ''source'' then Some sample_doc else None),
      json_stringify = (\<lambda>out. ''simple''),
      gzip_bytes = (\<lambda>s. ''gz'')\<rparr>"

definition sample_faults :: "stream_end \<Rightarrow> faults" where
  "sample_faults e = \<lparr>read_fails = (\<lambda>p. False), write_fails = (\<lambda>p. False), gzip_end = e\<rparr>"

definition sample_world :: world where
  "sample_world =
     \<lparr>files = [''/repo/data/jmdict.json'' \<mapsto> ''source''], dirs = {''/repo/data''},
      console = [], unpacked = []\<rparr>"


definition sample_asset :: asset where
  "sample_asset =
     \<lparr>name = ''jmdict-all-3.5.0.json.tgz'',
      browser_download_url = ''https://example.org/jmdict-all-3.5.0.json.tgz''\<rparr>"

definition sample_net :: "response list \<Rightarrow> tar_entry list \<Rightarrow> net" where
  "sample_net chain entries =
     \<lparr>script_dir = ''/repo/src'',
      encodeURIComponent = (\<lambda>s. s),
      api_get = (\<lambda>u. Response 200 None ''release''),
      parse_release = (\<lambda>s. Some \<lparr>assets = Some [sample_asset]\<rparr>),
      download_chain = chain,
      url_basename = (\<lambda>u. ''download''),
      write_stream_fails = False,
      untar = (\<lambda>bytes. (entries, False)),
      rm_fails = False,
      https_url = (\<lambda>u. startsWith u ''https://'')\<rparr>"

definition data_world :: world where
  "data_world = \<lparr>files = Map.empty, dirs = {''/repo/data''}, console = [], unpacked = []\<rparr>"

section \<open>Predicates used in the proofs\<close>

text \<open>
  A bucket of \<open>h\<close> holds what a kana element with the given kanji list contributes;
  an index holds what an entry contributes; and \<open>h'\<close> has every bucket of \<open>h\<close> with at
  least its members.
\<close>

definition holds_kana :: "h2kk \<Rightarrow> jsstring list \<Rightarrow> element \<Rightarrow> bool" where
  "holds_kana h kanjiList kana =
     (case h (elem_text kana) of
        None \<Rightarrow> False
      | Some b \<Rightarrow> katakana_of (elem_text kana) \<in> set (katakana b) \<and> set kanjiList \<subseteq> set (kanji b))"

definition holds_entry :: "h2kk \<Rightarrow> entry \<Rightarrow> bool" where
  "holds_entry h e =
     (\<forall>kana \<in> set (case entry_kana e of None \<Rightarrow> [] | Some ks \<Rightarrow> ks).
        holds_kana h (map elem_text (case entry_kanji e of None \<Rightarrow> [] | Some ks \<Rightarrow> ks)) kana)"

definition grows :: "h2kk \<Rightarrow> h2kk \<Rightarrow> bool" where
  "grows h h' \<longleftrightarrow>
     (\<forall>key b. h key = Some b \<longrightarrow>
        (\<exists>b'. h' key = Some b' \<and> set (katakana b) \<subseteq> set (katakana b')
              \<and> set (kanji b) \<subseteq> set (kanji b')))"

text \<open>An optional string argument that is missing or empty.\<close>

definition absent :: "string option \<Rightarrow> bool" where
  "absent v \<longleftrightarrow> v = None \<or> v = Some []"



text \<open>
  The test of the traversal filter on an entry, and the entries that \<open>onentry\<close> records.
\<close>

definition let_through :: "string \<Rightarrow> tar_entry \<Rightarrow> bool" where
  "let_through destinationDir e \<longleftrightarrow>
     startsWith (path_join [destinationDir, entry_path e]) destinationDir"

definition file_or_directory :: "tar_entry \<Rightarrow> bool" where
  "file_or_directory e \<longleftrightarrow> entry_type e = File \<or> entry_type e = Directory"

text \<open>
  What the specification says of extraction: a path remains within a directory when it
  is the directory or lies below it, and the canonical dictionary source is the first
  file-type entry of the extraction sequence.
\<close>

definition within_directory :: "string \<Rightarrow> string \<Rightarrow> bool" where
  "within_directory dir p \<longleftrightarrow> p = dir \<or> startsWith p (dir @ ''/'')"

definition first_file_entry :: "tar_entry list \<Rightarrow> string option" where
  "first_file_entry es = map_option entry_path (List.find (\<lambda>e. entry_type e = File) es)"

section \<open>Properties of the hiragana index\<close>

lemma shift_match_unit: "shift_match [c] = [c + 0x60]"
  by (simp add: shift_match_def charCodeAt_def fromCharCode_def)

lemma katakana_of_units: "katakana_of s = map shift_unit s"
  unfolding katakana_of_def by (induction s) (simp_all add: shift_match_unit shift_unit_def)

lemma shift_unit_surrogate:
  "is_high_surrogate (shift_unit c) = is_high_surrogate c"
  "is_low_surrogate (shift_unit c) = is_low_surrogate c"
  unfolding is_high_surrogate_def is_low_surrogate_def hiragana_class_def shift_unit_def
  by (auto simp: word_le_nat_alt unat_word_ariths)

lemma unat_shift_unit: "unat (shift_unit c) = shift_codepoint (unat c)"
  unfolding hiragana_class_def shift_codepoint_def shift_unit_def
  by (auto simp: word_le_nat_alt unat_word_ariths)

lemma surrogate_shift_unit:
  "is_high_surrogate c \<Longrightarrow> shift_unit c = c"
  "is_low_surrogate c \<Longrightarrow> shift_unit c = c"
  unfolding is_high_surrogate_def is_low_surrogate_def hiragana_class_def shift_unit_def
  by (auto simp: word_le_nat_alt)

lemma surrogate_pair_shift:
  "shift_codepoint (0x10000 + a + b) = 0x10000 + a + b"
  unfolding shift_codepoint_def by simp

lemma codepoints_map_shift:
  "codepoints (map shift_unit s) = map shift_codepoint (codepoints s)"
proof (induction s rule: codepoints.induct)
  case 1
  show ?case by simp
next
  case (2 c)
  show ?case by (simp add: unat_shift_unit)
next
  case (3 h l cs)
  show ?case
  proof (cases "is_high_surrogate h \<and> is_low_surrogate l")
    case True
    with 3 show ?thesis by (simp add: surrogate_shift_unit surrogate_pair_shift)
  next
    case False
    have "codepoints (h # l # cs) = unat h # codepoints (l # cs)"
      using False by (simp only: codepoints.simps if_False)
    moreover have "codepoints (shift_unit h # shift_unit l # map shift_unit cs) =
        unat (shift_unit h) # codepoints (shift_unit l # map shift_unit cs)"
      using False by (simp only: codepoints.simps shift_unit_surrogate if_False)
    moreover have "codepoints (shift_unit l # map shift_unit cs) =
        map shift_codepoint (codepoints (l # cs))"
      using "3.IH"(2) [OF False] by (simp only: list.map)
    ultimately show ?thesis by (simp only: list.map unat_shift_unit)
  qed
qed

text \<open>
  C1. The katakana form of a kana text is the text with every character in U+3040 to
  U+309F replaced by the character 0x60 above it and every other character unchanged.
  This holds for the UTF-16 code units that the replacement works on and for the code
  points they encode (a surrogate pair is never touched). The hiragana "a i"
  (U+3042 U+3044) becomes the katakana "a i" (U+30A2 U+30A4) and "ABC" stays "ABC".
\<close>

theorem katakana_shift:
  "katakana_of s = map (\<lambda>c. if 0x3040 \<le> c \<and> c \<le> 0x309F then c + 0x60 else c) s
   \<and> codepoints (katakana_of s) =
       map (\<lambda>p. if 0x3040 \<le> p \<and> p \<le> 0x309F then p + 0x60 else p) (codepoints s)
   \<and> katakana_of [0x3042, 0x3044] = [0x30A2, 0x30A4]
   \<and> katakana_of (of_ascii ''ABC'') = of_ascii ''ABC''"
proof -
  have "shift_unit = (\<lambda>c. if 0x3040 \<le> c \<and> c \<le> 0x309F then c + 0x60 else c)"
    by (rule ext) (simp add: shift_unit_def hiragana_class_def)
  then have units: "katakana_of s = map (\<lambda>c. if 0x3040 \<le> c \<and> c \<le> 0x309F then c + 0x60 else c) s"
    by (simp add: katakana_of_units)
  have "shift_codepoint = (\<lambda>p. if 0x3040 \<le> p \<and> p \<le> 0x309F then p + 0x60 else p)"
    by (rule ext) (simp add: shift_codepoint_def)
  then have points: "codepoints (katakana_of s) =
       map (\<lambda>p. if 0x3040 \<le> p \<and> p \<le> 0x309F then p + 0x60 else p) (codepoints s)"
    by (simp add: katakana_of_units codepoints_map_shift)
  have ai: "katakana_of [0x3042, 0x3044] = [0x30A2, 0x30A4]"
    by (simp add: katakana_of_units shift_unit_def hiragana_class_def)
  have abc: "katakana_of (of_ascii ''ABC'') = of_ascii ''ABC''"
    by (simp add: katakana_of_units of_ascii_def shift_unit_def hiragana_class_def)
  from units points ai abc show ?thesis by blast
qed

theorem katakana_shift_witness: "codepoints (katakana_of [0x3042, 0xD83D, 0xDE00, 0x41]) = [0x30A2, 0x1F600, 0x41]"
  using katakana_shift [of "[0x3042, 0xD83D, 0xDE00, 0x41]"] 
  by (simp add: is_high_surrogate_def is_low_surrogate_def)

subsection \<open>Sets\<close>

lemma set_Set_add: "set (Set_add x s) = insert x (set s)"
  by (auto simp: Set_add_def)

lemma distinct_Set_add: "distinct s \<Longrightarrow> distinct (Set_add x s)"
  by (simp add: Set_add_def)

lemma Set_add_member: "x \<in> set s \<Longrightarrow> Set_add x s = s"
  by (simp add: Set_add_def)

lemma distinct_fold_Set_add: "distinct s \<Longrightarrow> distinct (fold Set_add xs s)"
  by (induction xs arbitrary: s) (simp_all add: distinct_Set_add)

lemma set_fold_Set_add: "set (fold Set_add xs s) = set xs \<union> set s"
  by (induction xs arbitrary: s) (auto simp: set_Set_add)

lemma fold_Set_add_members: "set xs \<subseteq> set s \<Longrightarrow> fold Set_add xs s = s"
  by (induction xs) (simp_all add: Set_add_member)

subsection \<open>Loops\<close>

lemma forEach_append:
  "forEach f (xs @ ys) s = (case forEach f xs s of None \<Rightarrow> None | Some s' \<Rightarrow> forEach f ys s')"
  by (induction xs arbitrary: s) (simp_all split: option.splits)

lemma forEach_invariant:
  assumes "\<And>x s s'. P s \<Longrightarrow> f x s = Some s' \<Longrightarrow> P s'"
  shows "P s \<Longrightarrow> forEach f xs s = Some s' \<Longrightarrow> P s'"
proof (induction xs arbitrary: s)
  case Nil
  then show ?case by simp
next
  case (Cons x xs)
  then show ?case using assms by (auto split: option.splits)
qed

lemma forEach_saturates:
  assumes step: "\<And>x s s'. f x s = Some s' \<Longrightarrow> G s s' \<and> H s' x"
    and mono: "\<And>x s s'. H s x \<Longrightarrow> G s s' \<Longrightarrow> H s' x"
    and refl: "\<And>s. G s s"
    and trans: "\<And>s t u. G s t \<Longrightarrow> G t u \<Longrightarrow> G s u"
  shows "forEach f xs s = Some s' \<Longrightarrow> G s s' \<and> (\<forall>x \<in> set xs. H s' x)"
proof (induction xs arbitrary: s)
  case Nil
  then show ?case by (simp add: refl)
next
  case (Cons x xs)
  from Cons.prems obtain t where t: "f x s = Some t" and rest: "forEach f xs t = Some s'"
    by (auto split: option.splits)
  from step [OF t] have "G s t" "H t x" by simp_all
  moreover from Cons.IH [OF rest] have "G t s'" "\<forall>y \<in> set xs. H s' y" by simp_all
  ultimately show ?case using mono trans by auto
qed

lemma forEach_fixed:
  assumes "\<And>x s. H s x \<Longrightarrow> f x s = Some s"
  shows "(\<forall>x \<in> set xs. H s x) \<Longrightarrow> forEach f xs s = Some s"
  by (induction xs) (simp_all add: assms)

subsection \<open>Buckets\<close>

lemma grows_refl: "grows h h"
  by (auto simp: grows_def)

lemma grows_trans: "grows h t \<Longrightarrow> grows t u \<Longrightarrow> grows h u"
  unfolding grows_def by (meson subset_trans)

lemma holds_kana_mono: "holds_kana h kl k \<Longrightarrow> grows h h' \<Longrightarrow> holds_kana h' kl k"
  unfolding holds_kana_def grows_def by (fastforce split: option.splits)

lemma add_kana_cases:
  assumes "add_kana kl k h = Some h'"
  obtains b where "h (elem_text k) = Some b"
      "h' = h(elem_text k \<mapsto> b\<lparr>katakana := Set_add (katakana_of (elem_text k)) (katakana b),
                                 kanji := fold Set_add kl (kanji b)\<rparr>)"
  | "h (elem_text k) = None"
      "h' = h(elem_text k \<mapsto> \<lparr>katakana = [katakana_of (elem_text k)], kanji = fold Set_add kl []\<rparr>)"
  using assms
  unfolding add_kana_def get_property_def truthy_def Let_def
  by (auto split: option.splits if_splits property.splits simp: Set_add_def)

lemma add_kana_distinct:
  assumes "\<forall>key b. h key = Some b \<longrightarrow> distinct (katakana b) \<and> distinct (kanji b)"
    and "add_kana kl k h = Some h'"
  shows "\<forall>key b. h' key = Some b \<longrightarrow> distinct (katakana b) \<and> distinct (kanji b)"
  using assms(2)
proof (cases rule: add_kana_cases)
  case (1 b)
  with assms(1) show ?thesis by (auto simp: distinct_Set_add distinct_fold_Set_add)
next
  case 2
  with assms(1) show ?thesis by (auto simp: distinct_fold_Set_add)
qed

lemma add_kana_grows:
  assumes "add_kana kl k h = Some h'"
  shows "grows h h' \<and> holds_kana h' kl k"
  using assms
proof (cases rule: add_kana_cases)
  case (1 b)
  then show ?thesis
    by (auto simp: grows_def holds_kana_def set_Set_add set_fold_Set_add)
next
  case 2
  then show ?thesis
    by (auto simp: grows_def holds_kana_def set_fold_Set_add)
qed

lemma add_kana_fixed:
  assumes "holds_kana h kl k"
  shows "add_kana kl k h = Some h"
proof -
  from assms obtain b where b: "h (elem_text k) = Some b"
      "katakana_of (elem_text k) \<in> set (katakana b)" "set kl \<subseteq> set (kanji b)"
    by (auto simp: holds_kana_def split: option.splits)
  then have "h(elem_text k \<mapsto> b) = h" by (simp add: map_upd_triv)
  with b show ?thesis
    by (simp add: add_kana_def get_property_def truthy_def Set_add_member fold_Set_add_members)
qed

subsection \<open>Entries\<close>

lemma process_entry_distinct:
  assumes "\<forall>key b. h key = Some b \<longrightarrow> distinct (katakana b) \<and> distinct (kanji b)"
    and "process_entry e h = Some h'"
  shows "\<forall>key b. h' key = Some b \<longrightarrow> distinct (katakana b) \<and> distinct (kanji b)"
proof (rule forEach_invariant
    [where P = "\<lambda>h. \<forall>key b. h key = Some b \<longrightarrow> distinct (katakana b) \<and> distinct (kanji b)"])
  show "\<forall>key b. h key = Some b \<longrightarrow> distinct (katakana b) \<and> distinct (kanji b)" by fact
  show "forEach (add_kana (map elem_text (case entry_kanji e of None \<Rightarrow> [] | Some ks \<Rightarrow> ks)))
          (case entry_kana e of None \<Rightarrow> [] | Some ks \<Rightarrow> ks) h = Some h'"
    using assms(2) by (simp add: process_entry_def)
qed (rule add_kana_distinct)

lemma build_h2kk_distinct:
  assumes "build_h2kk ws = Some h"
  shows "\<forall>key b. h key = Some b \<longrightarrow> distinct (katakana b) \<and> distinct (kanji b)"
proof (rule forEach_invariant
    [where P = "\<lambda>h. \<forall>key b. h key = Some b \<longrightarrow> distinct (katakana b) \<and> distinct (kanji b)"])
  show "\<forall>key b. Map.empty key = Some b \<longrightarrow> distinct (katakana b) \<and> distinct (kanji (b::bucket))"
    by simp
  show "forEach process_entry ws Map.empty = Some h"
    using assms by (simp add: build_h2kk_def)
qed (rule process_entry_distinct)

lemma process_entry_grows:
  assumes "process_entry e h = Some h'"
  shows "grows h h' \<and> holds_entry h' e"
proof -
  let ?kl = "map elem_text (case entry_kanji e of None \<Rightarrow> [] | Some ks \<Rightarrow> ks)"
  let ?ks = "case entry_kana e of None \<Rightarrow> [] | Some ks \<Rightarrow> ks"
  from assms have "forEach (add_kana ?kl) ?ks h = Some h'"
    by (simp add: process_entry_def)
  then have "grows h h' \<and> (\<forall>k \<in> set ?ks. holds_kana h' ?kl k)"
    by (rule forEach_saturates [where G = grows and H = "\<lambda>h k. holds_kana h ?kl k", rotated -1])
      (auto intro: add_kana_grows holds_kana_mono grows_refl grows_trans dest: add_kana_grows)
  then show ?thesis by (simp add: holds_entry_def)
qed

lemma holds_entry_mono: "holds_entry h e \<Longrightarrow> grows h h' \<Longrightarrow> holds_entry h' e"
  unfolding holds_entry_def by (blast intro: holds_kana_mono)

lemma process_entry_fixed:
  assumes "holds_entry h e"
  shows "process_entry e h = Some h"
  unfolding process_entry_def Let_def
  by (rule forEach_fixed [where H = "\<lambda>h k. holds_kana h (map elem_text (case entry_kanji e of None \<Rightarrow> [] | Some ks \<Rightarrow> ks)) k"])
    (use assms in \<open>auto simp: holds_entry_def intro: add_kana_fixed\<close>)

lemma build_h2kk_saturated:
  assumes "build_h2kk ws = Some h"
  shows "forEach process_entry ws h = Some h"
proof -
  from assms have "forEach process_entry ws Map.empty = Some h"
    by (simp add: build_h2kk_def)
  then have "grows Map.empty h \<and> (\<forall>e \<in> set ws. holds_entry h e)"
    by (rule forEach_saturates [where G = grows and H = holds_entry, rotated -1])
      (auto intro: holds_entry_mono grows_refl grows_trans dest: process_entry_grows)
  then show ?thesis
    by (intro forEach_fixed [where H = holds_entry]) (auto intro: process_entry_fixed)
qed

text \<open>
  C2. In the index that \<open>convert\<close> builds a hiragana key has one bucket (the index is a
  map from keys to buckets), and the katakana and kanji arrays of every bucket are free
  of duplicates, however many entries with that reading contribute a spelling. Adding is
  idempotent: running all entries over the finished index again changes nothing, and
  adding a member to a set twice is the same as adding it once.
\<close>

theorem index_deduplicated:
  assumes "build_h2kk ws = Some h"
  shows "(\<forall>key b. words_of h key = Some b \<longrightarrow> distinct (katakana b) \<and> distinct (kanji b))
       \<and> forEach process_entry ws h = Some h
       \<and> (\<forall>x s. Set_add x (Set_add x s) = Set_add (x::jsstring) s)"
proof (intro conjI allI impI)
  fix key b
  assume "words_of h key = Some b"
  then obtain v where "h key = Some v" "katakana b = katakana v" "kanji b = kanji v"
    by (auto simp: words_of_def)
  with build_h2kk_distinct [OF assms] show "distinct (katakana b)" "distinct (kanji b)"
    by auto
next
  show "forEach process_entry ws h = Some h"
    by (rule build_h2kk_saturated [OF assms])
next
  fix x :: jsstring and s
  show "Set_add x (Set_add x s) = Set_add x s"
    by (simp add: Set_add_def)
qed

lemma inherited_key_throws:
  "build_h2kk [\<lparr>entry_kanji = None, entry_kana = Some [\<lparr>elem_text = of_ascii ''constructor''\<rparr>]\<rparr>] = None"
  by (simp add: build_h2kk_def process_entry_def add_kana_def get_property_def truthy_def
      Object_prototype_keys_def)

lemma not_inherited_ai: "[0x3042, 0x3044] \<notin> set Object_prototype_keys"
  by (simp add: Object_prototype_keys_def of_ascii_def)

theorem index_deduplicated_witness:
  "build_h2kk
     [\<lparr>entry_kanji = Some [\<lparr>elem_text = [0x611B]\<rparr>], entry_kana = Some [\<lparr>elem_text = [0x3042, 0x3044]\<rparr>]\<rparr>,
      \<lparr>entry_kanji = Some [\<lparr>elem_text = [0x611B]\<rparr>, \<lparr>elem_text = [0x85CD]\<rparr>],
       entry_kana = Some [\<lparr>elem_text = [0x3042, 0x3044]\<rparr>]\<rparr>]
     = Some [ [0x3042, 0x3044] \<mapsto> \<lparr>katakana = [ [0x30A2, 0x30A4] ], kanji = [ [0x611B], [0x85CD] ]\<rparr>]
   \<and> distinct (kanji \<lparr>katakana = [ [0x30A2, 0x30A4] ], kanji = [ [0x611B], [0x85CD :: 16 word] ]\<rparr>)"
proof -
  have built: "build_h2kk
     [\<lparr>entry_kanji = Some [\<lparr>elem_text = [0x611B]\<rparr>], entry_kana = Some [\<lparr>elem_text = [0x3042, 0x3044]\<rparr>]\<rparr>,
      \<lparr>entry_kanji = Some [\<lparr>elem_text = [0x611B]\<rparr>, \<lparr>elem_text = [0x85CD]\<rparr>],
       entry_kana = Some [\<lparr>elem_text = [0x3042, 0x3044]\<rparr>]\<rparr>]
     = Some [ [0x3042, 0x3044] \<mapsto> \<lparr>katakana = [ [0x30A2, 0x30A4] ], kanji = [ [0x611B], [0x85CD] ]\<rparr>]"
    by (simp add: build_h2kk_def process_entry_def add_kana_def get_property_def truthy_def
        not_inherited_ai Set_add_def katakana_of_units shift_unit_def hiragana_class_def)
  have "words_of [ [0x3042, 0x3044] \<mapsto> \<lparr>katakana = [ [0x30A2, 0x30A4] ], kanji = [ [0x611B], [0x85CD] ]\<rparr>]
          [0x3042, 0x3044] = Some \<lparr>katakana = [ [0x30A2, 0x30A4] ], kanji = [ [0x611B], [0x85CD] ]\<rparr>"
    by (simp add: words_of_def)
  with index_deduplicated [OF built] built show ?thesis by blast
qed

text \<open>
  C10. An entry without kana readings (the property is missing or the array is empty)
  leaves the index as it is: the index built from a dictionary with such an entry is the
  index built without it, so its kanji spellings reach the output only through other
  entries.
\<close>

theorem kana_less_entry_dropped:
  assumes "entry_kana e = None \<or> entry_kana e = Some []"
  shows "process_entry e h = Some h
       \<and> build_h2kk (ws1 @ e # ws2) = build_h2kk (ws1 @ ws2)"
proof -
  from assms have "process_entry e h = Some h" for h
    by (auto simp: process_entry_def)
  then show ?thesis
    by (simp add: build_h2kk_def forEach_append split: option.splits)
qed

theorem kana_less_entry_dropped_witness:
  "build_h2kk [\<lparr>entry_kanji = Some [\<lparr>elem_text = [0x611B]\<rparr>], entry_kana = None\<rparr>] = Some Map.empty
   \<and> build_h2kk [\<lparr>entry_kanji = Some [\<lparr>elem_text = [0x611B]\<rparr>], entry_kana = Some []\<rparr>] = Some Map.empty"
  using kana_less_entry_dropped [of "\<lparr>entry_kanji = Some [\<lparr>elem_text = [0x611B]\<rparr>], entry_kana = None\<rparr>" Map.empty "[]" "[]"]
    kana_less_entry_dropped [of "\<lparr>entry_kanji = Some [\<lparr>elem_text = [0x611B]\<rparr>], entry_kana = Some []\<rparr>" Map.empty "[]" "[]"]
  by (simp add: build_h2kk_def)

section \<open>Properties of convert\<close>

subsection \<open>The stages of convert\<close>

lemma files_say [simp]: "files (say m w) = files w"
  by (simp add: say_def)

lemma dirs_say [simp]: "dirs (say m w) = dirs w"
  by (simp add: say_def)

lemma console_say [simp]: "console (say m w) = console w @ [m]"
  by (simp add: say_def)

lemma console_put_file [simp]: "console (put_file p d w) = console w"
  by (simp add: put_file_def)

lemma files_put_file [simp]: "files (put_file p d w) = (files w)(p \<mapsto> d)"
  by (simp add: put_file_def)

lemma existsSync_say [simp]: "existsSync (say m w) v = existsSync w v"
  by (simp add: existsSync_def split: jsval.splits)

lemma existsSync_not_a_path: "existsSync w (JBool b) = False"
  by (simp add: existsSync_def)

lemma compress_console:
  "\<exists>ms. console (snd (compress R F out gz w)) = console w @ ms \<and> ReleaseFolderMissing \<notin> set ms"
  by (auto simp: compress_def on_finish_def split: stream_end.splits option.splits)

lemma write_output_console:
  "\<exists>ms. console (snd (write_output R F out gz js w)) = console w @ ms \<and> ReleaseFolderMissing \<notin> set ms"
proof (cases "write_fails F out \<or> createGzipVersion = False")
  case True
  then show ?thesis by (auto simp: write_output_def Let_def)
next
  case False
  obtain ms where "console (snd (compress R F out gz (say (Saved out) (put_file out js w))))
      = console (say (Saved out) (put_file out js w)) @ ms" "ReleaseFolderMissing \<notin> set ms"
    using compress_console by blast
  with False show ?thesis by (simp add: write_output_def Let_def)
qed

lemma index_and_write_console:
  "\<exists>ms. console (snd (index_and_write R F out gz data w)) = console w @ ms \<and> ReleaseFolderMissing \<notin> set ms"
  using write_output_console
  by (auto simp: index_and_write_def split: option.splits)

lemma convert_console:
  "\<exists>ms. console (snd (convert R F fileName w)) = console w @ ms \<and> ReleaseFolderMissing \<notin> set ms"
proof (cases "fileName = None \<or> fileName = Some []")
  case True
  then show ?thesis by (auto simp: convert_def)
next
  case False
  then obtain f where f: "fileName = Some f" "f \<noteq> []" by auto
  let ?w1 = "say (Converting f) w"
  let ?read = "if read_fails F (inputFilePath R f) then None else files ?w1 (inputFilePath R f)"
  show ?thesis
  proof (cases "existsSync w (JStr (inputFilePath R f))")
    case False
    with f show ?thesis by (simp add: convert_def Let_def)
  next
    case True
    show ?thesis
    proof (cases ?read)
      case None
      with True f show ?thesis
        by (simp add: convert_def Let_def existsSync_not_a_path del: files_say)
    next
      case (Some data)
      obtain ms where "console (snd (index_and_write R F (outputFilePath R)
          (outputFilePath R @ ''.gz'') data ?w1)) = console ?w1 @ ms"
        "ReleaseFolderMissing \<notin> set ms"
        using index_and_write_console by blast
      with Some True f show ?thesis
        by (simp add: convert_def Let_def existsSync_not_a_path del: files_say)
    qed
  qed
qed

text \<open>
  C9. The guard for the release folder tests \<open>fs.existsSync(releaseFolder === false)\<close>:
  the comparison of a string with \<open>false\<close> is \<open>false\<close>, and \<open>existsSync\<close> of something
  that is not a path is \<open>false\<close>, so the branch that prints "The releaser folder does
  not exists." is never taken: no run of \<open>convert\<close> prints that message.
\<close>

theorem release_folder_guard_vacuous:
  "strict_eq (JStr releaseFolder) (JBool False) = False
   \<and> existsSync w (JBool (strict_eq (JStr releaseFolder) (JBool False))) = False
   \<and> ReleaseFolderMissing \<notin> set (drop (length (console w)) (console (snd (convert R F fileName w))))"
proof -
  obtain ms where "console (snd (convert R F fileName w)) = console w @ ms"
      "ReleaseFolderMissing \<notin> set ms"
    using convert_console by blast
  then show ?thesis by (simp add: strict_eq_def existsSync_not_a_path)
qed

lemma compress_never_false: "fst (compress R F out gz w) \<noteq> Resolved False"
  by (simp add: compress_def on_finish_def split: stream_end.splits option.splits)

lemma compress_error_event:
  "gzip_end F = ErrorEvent leftover \<Longrightarrow>
   compress R F out gz w = (Uncaught, w\<lparr>files := (files w)(gz := leftover)\<rparr>)"
  by (simp add: compress_def)

lemma compress_keeps_output:
  "gz \<noteq> out \<Longrightarrow> files (snd (compress R F out gz w)) out = files w out"
  by (simp add: compress_def on_finish_def split: stream_end.splits option.splits)

lemma write_output_success:
  assumes "write_output R F out gz js w = (Resolved True, w')" "gz \<noteq> out"
  shows "files w' out = Some js"
proof -
  let ?w1 = "say (Saved out) (put_file out js w)"
  from assms(1) have nofail: "\<not> write_fails F out"
    by (auto simp: write_output_def)
  show ?thesis
  proof (cases "createGzipVersion = False")
    case True
    with assms(1) nofail show ?thesis by (auto simp: write_output_def Let_def)
  next
    case False
    with assms(1) nofail have "compress R F out gz ?w1 = (Resolved True, w')"
      by (simp add: write_output_def Let_def)
    then have "files w' out = files (snd (compress R F out gz ?w1)) out" by simp
    also have "\<dots> = files ?w1 out" by (rule compress_keeps_output [OF assms(2)])
    finally show ?thesis by simp
  qed
qed

lemma index_and_write_success:
  assumes "index_and_write R F out gz data w = (Resolved True, w')" "gz \<noteq> out"
  shows "\<exists>doc h. json_parse R data = Some doc \<and> build_h2kk (words doc) = Some h
           \<and> files w' out = Some (json_stringify R (make_output doc h))"
proof -
  from assms(1) obtain doc where doc: "json_parse R data = Some doc"
    by (cases "json_parse R data") (auto simp: index_and_write_def)
  with assms(1) obtain h where h: "build_h2kk (words doc) = Some h"
    by (cases "build_h2kk (words doc)") (auto simp: index_and_write_def)
  with doc assms(1) have
    "write_output R F out gz (json_stringify R (make_output doc h)) w = (Resolved True, w')"
    by (simp add: index_and_write_def)
  from write_output_success [OF this assms(2)] doc h show ?thesis by blast
qed

lemma convert_success:
  assumes "convert R F (Some f) w = (Resolved True, w')"
  shows "\<exists>data doc h. files w (inputFilePath R f) = Some data \<and> json_parse R data = Some doc
           \<and> build_h2kk (words doc) = Some h
           \<and> files w' (outputFilePath R) = Some (json_stringify R (make_output doc h))"
proof -
  let ?w1 = "say (Converting f) w"
  let ?read = "if read_fails F (inputFilePath R f) then None else files ?w1 (inputFilePath R f)"
  from assms have f: "f \<noteq> []" by (auto simp: convert_def)
  from assms f have ex: "existsSync w (JStr (inputFilePath R f))"
    by (auto simp: convert_def Let_def split: if_splits)
  from assms f ex obtain data where data: "?read = Some data"
    by (cases ?read) (auto simp: convert_def Let_def existsSync_not_a_path simp del: files_say)
  then have src: "files w (inputFilePath R f) = Some data" by (auto split: if_splits)
  from assms f ex data have
    "index_and_write R F (outputFilePath R) (outputFilePath R @ ''.gz'') data ?w1 = (Resolved True, w')"
    by (simp add: convert_def Let_def existsSync_not_a_path del: files_say)
  from index_and_write_success [OF this] src show ?thesis by auto
qed

text \<open>
  C8. Two runs of \<open>convert\<close> that both succeed and read the same content from the source
  file write a plain output with the same \<open>words\<close>: the same keys, and for every key the
  same members in the katakana and kanji arrays (here even in the same order).
\<close>

theorem convert_rerun_same_words:
  assumes "files w1 (inputFilePath R f) = files w2 (inputFilePath R f)"
    and "convert R F1 (Some f) w1 = (Resolved True, w1')"
    and "convert R F2 (Some f) w2 = (Resolved True, w2')"
  shows "\<exists>o1 o2. files w1' (outputFilePath R) = Some (json_stringify R o1)
           \<and> files w2' (outputFilePath R) = Some (json_stringify R o2)
           \<and> out_words o1 = out_words o2
           \<and> dom (out_words o1) = dom (out_words o2)
           \<and> (\<forall>key b1 b2. out_words o1 key = Some b1 \<and> out_words o2 key = Some b2 \<longrightarrow>
                 set (katakana b1) = set (katakana b2) \<and> set (kanji b1) = set (kanji b2))"
proof -
  from convert_success [OF assms(2)] obtain data doc h where
    1: "files w1 (inputFilePath R f) = Some data" "json_parse R data = Some doc"
       "build_h2kk (words doc) = Some h"
       "files w1' (outputFilePath R) = Some (json_stringify R (make_output doc h))"
    by blast
  from convert_success [OF assms(3)] assms(1) 1 have
    "files w2' (outputFilePath R) = Some (json_stringify R (make_output doc h))"
    by auto
  with 1(4) show ?thesis by fastforce
qed

subsection \<open>The sample run\<close>

lemma sample_faults_sel:
  "read_fails (sample_faults e) p = False"
  "write_fails (sample_faults e) p = False"
  "gzip_end (sample_faults e) = e"
  by (simp_all add: sample_faults_def)

lemma sample_runtime_sel:
  "dirname sample_runtime = ''/repo/src''"
  "json_parse sample_runtime ''source'' = Some sample_doc"
  "json_stringify sample_runtime out = ''simple''"
  "gzip_bytes sample_runtime s = ''gz''"
  by (simp_all add: sample_runtime_def)

lemma sample_world_sel:
  "files sample_world = [''/repo/data/jmdict.json'' \<mapsto> ''source'']"
  "dirs sample_world = {''/repo/data''}"
  "console sample_world = []"
  by (simp_all add: sample_world_def)

lemma sample_paths:
  "inputFilePath sample_runtime ''jmdict.json'' = ''/repo/data/jmdict.json''"
  "outputFilePath sample_runtime = ''/repo/release/simple.min.json''"
  by (simp_all add: inputFilePath_def outputFilePath_def sample_runtime_sel path_join_def
      posix_normalize_def dataFolder_def releaseFolder_def outputFileName_def)

lemma sample_index:
  "build_h2kk (words sample_doc) =
     Some [ [0x3042, 0x3044] \<mapsto> \<lparr>katakana = [ [0x30A2, 0x30A4] ], kanji = [ [0x611B] ]\<rparr>]"
  by (simp add: sample_doc_def build_h2kk_def process_entry_def add_kana_def get_property_def
      truthy_def not_inherited_ai Set_add_def katakana_of_units shift_unit_def hiragana_class_def)

lemma sample_index_and_write:
  "index_and_write sample_runtime (sample_faults e) ''/repo/release/simple.min.json''
     ''/repo/release/simple.min.json.gz'' ''source'' w =
   compress sample_runtime (sample_faults e) ''/repo/release/simple.min.json''
     ''/repo/release/simple.min.json.gz''
     (say (Saved ''/repo/release/simple.min.json'') (put_file ''/repo/release/simple.min.json'' ''simple'' w))"
  by (simp add: index_and_write_def sample_index write_output_def createGzipVersion_def
      sample_faults_sel sample_runtime_sel)

lemma sample_convert:
  "convert sample_runtime (sample_faults e) (Some ''jmdict.json'') w =
     (if ''/repo/data/jmdict.json'' \<in> dom (files w) \<or> ''/repo/data/jmdict.json'' \<in> dirs w
      then (case files w ''/repo/data/jmdict.json'' of
              None \<Rightarrow> (Resolved False, say ReadError (say (Converting ''jmdict.json'') w))
            | Some data \<Rightarrow>
                index_and_write sample_runtime (sample_faults e) ''/repo/release/simple.min.json''
                  ''/repo/release/simple.min.json.gz'' data (say (Converting ''jmdict.json'') w))
      else (Resolved False, say InputMissing (say (Converting ''jmdict.json'') w)))"
  by (simp add: convert_def sample_paths existsSync_def Let_def sample_faults_sel
      split: option.splits)

lemma sample_run:
  "convert sample_runtime (sample_faults e) (Some ''jmdict.json'') sample_world =
     compress sample_runtime (sample_faults e) ''/repo/release/simple.min.json''
       ''/repo/release/simple.min.json.gz''
       (say (Saved ''/repo/release/simple.min.json'')
         (put_file ''/repo/release/simple.min.json'' ''simple''
           (say (Converting ''jmdict.json'') sample_world)))"
  by (simp add: sample_convert sample_world_sel sample_index_and_write)

lemma sample_run_finish:
  "fst (convert sample_runtime (sample_faults Finish) (Some ''jmdict.json'') sample_world) = Resolved True"
  "files (snd (convert sample_runtime (sample_faults Finish) (Some ''jmdict.json'') sample_world)) =
     [''/repo/data/jmdict.json'' \<mapsto> ''source'', ''/repo/release/simple.min.json'' \<mapsto> ''simple'',
      ''/repo/release/simple.min.json.gz'' \<mapsto> ''gz'']"
  "console (snd (convert sample_runtime (sample_faults Finish) (Some ''jmdict.json'') sample_world)) =
     [Converting ''jmdict.json'', Saved ''/repo/release/simple.min.json'',
      GzSaved ''/repo/release/simple.min.json.gz'']"
  by (simp_all add: sample_run sample_world_sel compress_def on_finish_def sample_faults_sel
      sample_runtime_sel)

lemma sample_run_error:
  "fst (convert sample_runtime (sample_faults (ErrorEvent None)) (Some ''jmdict.json'') sample_world) = Uncaught"
  "files (snd (convert sample_runtime (sample_faults (ErrorEvent None)) (Some ''jmdict.json'') sample_world)) 
      ''/repo/release/simple.min.json'' = Some ''simple''"
  by (simp_all add: sample_run sample_world_sel compress_def on_finish_def sample_faults_sel
      sample_runtime_sel)

text \<open>
  C6. The compression stage never resolves the promise of \<open>convert\<close> with \<open>false\<close>. An
  \<open>error\<close> event of the gzip pipeline has no listener and ends the run with an uncaught
  exception; in the sample run below the plain output has been written by then and
  stays in place.
\<close>

theorem compression_error_uncaught:
  "fst (compress R F out gz w) \<noteq> Resolved False
   \<and> fst (compress R (F\<lparr>gzip_end := ErrorEvent leftover\<rparr>) out gz w) = Uncaught
   \<and> fst (convert sample_runtime (sample_faults (ErrorEvent None)) (Some ''jmdict.json'')
            sample_world) = Uncaught
   \<and> files (snd (convert sample_runtime (sample_faults (ErrorEvent None)) (Some ''jmdict.json'')
                   sample_world)) ''/repo/release/simple.min.json'' = Some ''simple''"
proof -
  have never: "fst (compress R F out gz w) \<noteq> Resolved False"
    by (rule compress_never_false)
  have "gzip_end (F\<lparr>gzip_end := ErrorEvent leftover\<rparr>) = ErrorEvent leftover"
    by simp
  then have thrown: "fst (compress R (F\<lparr>gzip_end := ErrorEvent leftover\<rparr>) out gz w) = Uncaught"
    by (simp only: compress_error_event fst_conv)
  from never thrown sample_run_error show ?thesis
    by simp
qed

lemma sample_rerun:
  "fst (convert sample_runtime (sample_faults Finish) (Some ''jmdict.json'')
     (snd (convert sample_runtime (sample_faults Finish) (Some ''jmdict.json'') sample_world)))
   = Resolved True"
  by (simp add: sample_convert [where w = "snd (convert sample_runtime (sample_faults Finish) (Some ''jmdict.json'') sample_world)"]
      sample_run_finish sample_index_and_write compress_def on_finish_def sample_faults_sel)

theorem convert_rerun_same_words_witness:
  "files sample_world (inputFilePath sample_runtime ''jmdict.json'') =
     files (snd (convert sample_runtime (sample_faults Finish) (Some ''jmdict.json'') sample_world))
       (inputFilePath sample_runtime ''jmdict.json'')
   \<and> fst (convert sample_runtime (sample_faults Finish) (Some ''jmdict.json'') sample_world)
       = Resolved True
   \<and> fst (convert sample_runtime (sample_faults Finish) (Some ''jmdict.json'')
       (snd (convert sample_runtime (sample_faults Finish) (Some ''jmdict.json'') sample_world)))
       = Resolved True
   \<and> (\<exists>o1 o2.
        files (snd (convert sample_runtime (sample_faults Finish) (Some ''jmdict.json'') sample_world))
          (outputFilePath sample_runtime) = Some (json_stringify sample_runtime o1)
      \<and> files (snd (convert sample_runtime (sample_faults Finish) (Some ''jmdict.json'')
          (snd (convert sample_runtime (sample_faults Finish) (Some ''jmdict.json'') sample_world))))
          (outputFilePath sample_runtime) = Some (json_stringify sample_runtime o2)
      \<and> out_words o1 = out_words o2)"
proof -
  let ?run1 = "convert sample_runtime (sample_faults Finish) (Some ''jmdict.json'') sample_world"
  let ?run2 = "convert sample_runtime (sample_faults Finish) (Some ''jmdict.json'') (snd ?run1)"
  have same: "files sample_world (inputFilePath sample_runtime ''jmdict.json'') =
      files (snd ?run1) (inputFilePath sample_runtime ''jmdict.json'')"
    by (simp add: sample_paths sample_run_finish sample_world_sel)
  have r1: "?run1 = (Resolved True, snd ?run1)"
    using sample_run_finish(1) by (simp add: prod_eq_iff)
  have r2: "?run2 = (Resolved True, snd ?run2)"
    using sample_rerun by (simp add: prod_eq_iff)
  from convert_rerun_same_words [OF same r1 r2] same sample_run_finish(1) sample_rerun
  show ?thesis by blast
qed

theorem release_folder_guard_vacuous_witness:
  "\<not> existsSync sample_world (JStr ''/repo/release'')
   \<and> fst (convert sample_runtime (sample_faults Finish) (Some ''jmdict.json'') sample_world)
       = Resolved True
   \<and> ReleaseFolderMissing \<notin> set (console (snd
       (convert sample_runtime (sample_faults Finish) (Some ''jmdict.json'') sample_world)))"
  using release_folder_guard_vacuous
    [of sample_world sample_runtime "sample_faults Finish" "Some ''jmdict.json''"]
  by (simp add: sample_world_sel existsSync_def sample_run_finish(1))

section \<open>Properties of update\<close>

subsection \<open>getAsset\<close>

lemma startsWith_iff: "startsWith s p \<longleftrightarrow> (\<exists>t. s = p @ t)"
  unfolding startsWith_def
  by (metis append_eq_conv_conj append_take_drop_id)

lemma endsWith_iff: "endsWith s p \<longleftrightarrow> (\<exists>t. s = t @ p)"
proof
  assume "endsWith s p"
  then have "drop (length s - length p) s = p" by (simp add: endsWith_def)
  then have "s = take (length s - length p) s @ p" by (metis append_take_drop_id)
  then show "\<exists>t. s = t @ p" ..
next
  assume "\<exists>t. s = t @ p"
  then show "endsWith s p" by (auto simp: endsWith_def)
qed

lemma truthy_string_absent: "truthy_string v \<longleftrightarrow> \<not> absent v"
  by (auto simp: truthy_string_def absent_def split: option.splits)

lemma asset_filter_iff:
  "asset_filter pre ext a \<longleftrightarrow>
     (absent pre \<or> (\<exists>t. name a = the pre @ t)) \<and> (absent ext \<or> (\<exists>t. name a = t @ the ext))"
  by (auto simp: asset_filter_def Let_def truthy_string_absent startsWith_iff endsWith_iff)

lemma first_of_filter:
  "(if length (filter P xs) > 0 then Some (filter P xs ! 0) else None) = List.find P xs"
  by (induction xs) (auto split: if_splits)

lemma getAsset_2xx:
  assumes "api_get N (apiUrl N own rep tag) = Response statusCode location body"
    and "200 \<le> statusCode" "statusCode < 300"
    and "parse_release N body = Some releaseData"
  shows "fst (getAsset N own rep pre ext tag w) =
     Resolved (case assets releaseData of None \<Rightarrow> None
               | Some listed \<Rightarrow> List.find (asset_filter pre ext) listed)"
proof (cases "assets releaseData")
  case None
  with assms show ?thesis by (simp add: getAsset_def)
next
  case (Some listed)
  show ?thesis
  proof (cases "listed = []")
    case True
    with Some assms show ?thesis by (simp add: getAsset_def)
  next
    case False
    with Some assms show ?thesis
      using first_of_filter [of "asset_filter pre ext" listed]
      by (simp add: getAsset_def Let_def split: if_splits)
  qed
qed

text \<open>
  C7. For a 2xx response of the release API whose body parses, \<open>getAsset\<close> resolves
  with the first asset in listed order that matches, where an asset matches when
  (the prefix is absent or its name starts with the prefix) and (the suffix is absent or
  its name ends with the suffix); it resolves with \<open>null\<close> exactly when the response has
  no asset list, the list is empty, or no listed asset matches.
\<close>

theorem getAsset_first_match:
  assumes "api_get N (apiUrl N own rep tag) = Response statusCode location body"
    and "200 \<le> statusCode" "statusCode < 300"
    and "parse_release N body = Some releaseData"
  shows "fst (getAsset N own rep pre ext tag w) =
           Resolved (case assets releaseData of None \<Rightarrow> None
                     | Some listed \<Rightarrow> List.find (asset_filter pre ext) listed)
       \<and> (\<forall>a. asset_filter pre ext a \<longleftrightarrow>
             (absent pre \<or> (\<exists>t. name a = the pre @ t))
             \<and> (absent ext \<or> (\<exists>t. name a = t @ the ext)))
       \<and> (fst (getAsset N own rep pre ext tag w) = Resolved None \<longleftrightarrow>
             assets releaseData = None \<or> assets releaseData = Some []
             \<or> (\<exists>listed. assets releaseData = Some listed
                   \<and> (\<forall>a \<in> set listed. \<not> asset_filter pre ext a)))"
proof -
  note r = getAsset_2xx [OF assms, where pre = pre and ext = ext and w = w]
  have "fst (getAsset N own rep pre ext tag w) = Resolved None \<longleftrightarrow>
             assets releaseData = None \<or> assets releaseData = Some []
             \<or> (\<exists>listed. assets releaseData = Some listed
                   \<and> (\<forall>a \<in> set listed. \<not> asset_filter pre ext a))"
    unfolding r by (cases "assets releaseData") (auto simp: find_None_iff)
  with r asset_filter_iff show ?thesis by blast
qed

subsection \<open>downloadAsset\<close>


lemma doDownload_rejected_url:
  "\<not> redirectCount > 5 \<Longrightarrow> \<not> https_url N url \<Longrightarrow>
   doDownload N d fn chain url redirectCount w = None"
  by (cases chain) simp_all




lemma relative_location_uncaught:
  assumes "https_url N u" "\<not> https_url N loc" "loc \<noteq> []" "existsSync w (JStr d)" "u \<noteq> []"
    and "download_chain N = Response 302 (Some loc) body # rest"
  shows "downloadAsset N (Some u) d fn w = (Uncaught, w)"
  using assms
  by (simp add: downloadAsset_def truthy_string_def doDownload_rejected_url)

lemma rejected_first_url_caught:
  assumes "\<not> https_url N u" "existsSync w (JStr d)" "u \<noteq> []"
  shows "downloadAsset N (Some u) d fn w = (Resolved None, say UnhandledError w)"
  using assms by (simp add: downloadAsset_def doDownload_rejected_url)


subsection \<open>unpackAsset\<close>

lemma traversal_filter_let_through:
  "traversal_filter d (entry_path e) w =
     (if let_through d e then (True, w) else (False, say (PathTraversal (entry_path e)) w))"
  by (simp add: traversal_filter_def let_through_def Let_def)

lemma extract_entries_step:
  "extract_entries d (e # es) filenames w =
     (if let_through d e
      then extract_entries d es (onentry e filenames) (w\<lparr>unpacked := unpacked w @ [e]\<rparr>)
      else extract_entries d es filenames (say (PathTraversal (entry_path e)) w))"
  by (simp add: traversal_filter_let_through)

lemma unpacked_say: "unpacked (say m w) = unpacked w"
  by (simp add: say_def)

lemma extract_entries_result:
  "fst (extract_entries d es filenames w) =
     filenames @ map entry_path (filter file_or_directory (filter (let_through d) es))
   \<and> unpacked (snd (extract_entries d es filenames w)) = unpacked w @ filter (let_through d) es
   \<and> files (snd (extract_entries d es filenames w)) = files w
   \<and> dirs (snd (extract_entries d es filenames w)) = dirs w"
proof (induction es arbitrary: filenames w)
  case Nil
  show ?case by simp
next
  case (Cons e es)
  show ?case
    unfolding extract_entries_step
    by (simp add: Cons.IH onentry_def file_or_directory_def unpacked_say del: extract_entries.simps)
qed

lemma unpackAsset_resolved:
  assumes "unpackAsset N file d w = (Resolved (Some fs), w')"
  shows "fs = map entry_path (filter file_or_directory (drop (length (unpacked w)) (unpacked w')))"
proof -
  from assms obtain bytes where bytes: "files w file = Some bytes"
    by (cases "files w file") (auto simp: unpackAsset_def split: if_splits)
  let ?r = "extract_entries d (fst (untar N bytes)) [] w"
  from assms bytes have "fs = fst ?r" "unpacked w' = unpacked (snd ?r)"
    by (auto simp: unpackAsset_def unpacked_say split: if_splits prod.splits)
  then show ?thesis
    using extract_entries_result [of d "fst (untar N bytes)" "[]" w] by simp
qed

lemma first_or_null_Some: "first_or_null (Some fs) = (case fs of [] \<Rightarrow> None | f # rest \<Rightarrow> Some f)"
  by (cases fs) (simp_all add: first_or_null_def)

subsection \<open>The sample release\<close>

lemma sample_net_sel:
  "script_dir (sample_net chain entries) = ''/repo/src''"
  "encodeURIComponent (sample_net chain entries) s = s"
  "api_get (sample_net chain entries) u = Response 200 None ''release''"
  "parse_release (sample_net chain entries) s = Some \<lparr>assets = Some [sample_asset]\<rparr>"
  "download_chain (sample_net chain entries) = chain"
  "url_basename (sample_net chain entries) u = ''download''"
  "write_stream_fails (sample_net chain entries) = False"
  "untar (sample_net chain entries) bytes = (entries, False)"
  "rm_fails (sample_net chain entries) = False"
  "https_url (sample_net chain entries) u = startsWith u ''https://''"
  by (simp_all add: sample_net_def)

lemma data_world_sel:
  "files data_world = Map.empty" "dirs data_world = {''/repo/data''}"
  "console data_world = []" "unpacked data_world = []"
  by (simp_all add: data_world_def)

lemma sample_asset_matches: "asset_filter (Some prefix) (Some extension) sample_asset"
  by (simp add: asset_filter_def truthy_string_def prefix_def extension_def sample_asset_def
      startsWith_def endsWith_def)

lemma sample_getAsset:
  "getAsset (sample_net chain entries) owner repo (Some prefix) (Some extension) t w
     = (Resolved (Some sample_asset), w)"
  by (simp add: getAsset_def sample_net_sel sample_asset_matches)

lemma sample_folder:
  "path_join [script_dir (sample_net chain entries), dataFolder] = ''/repo/data''"
  "path_join [''/repo/data'', name sample_asset] = ''/repo/data/jmdict-all-3.5.0.json.tgz''"
  by (simp_all add: sample_net_sel dataFolder_def sample_asset_def path_join_def posix_normalize_def)

lemma sample_download:
  "downloadAsset (sample_net [Response 200 None ''archive''] entries)
     (Some (browser_download_url sample_asset)) ''/repo/data'' (Some (name sample_asset))
     (say m data_world)
   = (Resolved (Some ''/repo/data/jmdict-all-3.5.0.json.tgz''),
      say (Downloaded ''jmdict-all-3.5.0.json.tgz'' 0 ''/repo/data/jmdict-all-3.5.0.json.tgz'')
        (put_file ''/repo/data/jmdict-all-3.5.0.json.tgz'' ''archive'' (say m data_world)))"
  by (simp add: downloadAsset_def sample_net_sel existsSync_def data_world_sel sample_folder
      truthy_string_def Let_def)
    (simp add: sample_asset_def startsWith_def)

lemma sample_unpack:
  assumes "files w ''/repo/data/jmdict-all-3.5.0.json.tgz'' = Some bytes"
    and "''/repo/data'' \<in> dirs w"
  shows "unpackAsset (sample_net chain entries) ''/repo/data/jmdict-all-3.5.0.json.tgz''
     ''/repo/data'' w
   = (Resolved (Some (fst (extract_entries ''/repo/data'' entries [] w))),
      say (Unpacked (length (fst (extract_entries ''/repo/data'' entries [] w))) ''/repo/data'')
        (snd (extract_entries ''/repo/data'' entries [] w)))"
  using assms
  by (simp add: unpackAsset_def existsSync_def sample_net_sel domI split: prod.splits)

lemma sample_entries:
  "let_through ''/repo/data'' \<lparr>entry_type = Directory, entry_path = ''jmdict/''\<rparr>"
  "let_through ''/repo/data'' \<lparr>entry_type = File, entry_path = ''jmdict/jmdict-all-3.5.0.json''\<rparr>"
  "let_through ''/repo/data'' \<lparr>entry_type = File, entry_path = ''jmdict.json''\<rparr>"
  "let_through ''/repo/data'' \<lparr>entry_type = File, entry_path = ''../data-evil/x''\<rparr>"
  "\<not> let_through ''/repo/data'' \<lparr>entry_type = File, entry_path = ''../../etc/passwd''\<rparr>"
  by (simp_all add: let_through_def path_join_def posix_normalize_def startsWith_def)

text \<open>
  C3. The filter compares strings: with the destination \<open>/repo/data\<close> the entry
  \<open>../data-evil/x\<close> resolves to \<open>/repo/data-evil/x\<close>, which is outside the destination
  but starts with its name. The filter lets the entry through: no warning is printed,
  the entry is reported among the extracted names and left to \<open>tar\<close> for unpacking,
  as is the entry that follows it.
\<close>

theorem sibling_directory_passes_filter:
  "path_join [''/repo/data'', ''../data-evil/x''] = ''/repo/data-evil/x''
   \<and> \<not> within_directory ''/repo/data'' ''/repo/data-evil/x''
   \<and> traversal_filter ''/repo/data'' ''../data-evil/x'' data_world = (True, data_world)
   \<and> fst (extract_entries ''/repo/data''
        [\<lparr>entry_type = File, entry_path = ''../data-evil/x''\<rparr>,
         \<lparr>entry_type = File, entry_path = ''jmdict.json''\<rparr>] [] data_world)
       = [''../data-evil/x'', ''jmdict.json'']
   \<and> unpacked (snd (extract_entries ''/repo/data''
        [\<lparr>entry_type = File, entry_path = ''../data-evil/x''\<rparr>,
         \<lparr>entry_type = File, entry_path = ''jmdict.json''\<rparr>] [] data_world))
       = [\<lparr>entry_type = File, entry_path = ''../data-evil/x''\<rparr>,
          \<lparr>entry_type = File, entry_path = ''jmdict.json''\<rparr>]
   \<and> console (snd (extract_entries ''/repo/data''
        [\<lparr>entry_type = File, entry_path = ''../data-evil/x''\<rparr>,
         \<lparr>entry_type = File, entry_path = ''jmdict.json''\<rparr>] [] data_world))
       = []"
proof -
  have "path_join [''/repo/data'', ''../data-evil/x''] = ''/repo/data-evil/x''"
    by (simp add: path_join_def posix_normalize_def)
  moreover have "\<not> within_directory ''/repo/data'' ''/repo/data-evil/x''"
    by (simp add: within_directory_def startsWith_def)
  moreover have "traversal_filter ''/repo/data'' ''../data-evil/x'' data_world = (True, data_world)"
    using sample_entries(4) traversal_filter_let_through
      [of "''/repo/data''" "\<lparr>entry_type = File, entry_path = ''../data-evil/x''\<rparr>" data_world]
    by simp
  moreover have "extract_entries ''/repo/data''
        [\<lparr>entry_type = File, entry_path = ''../data-evil/x''\<rparr>,
         \<lparr>entry_type = File, entry_path = ''jmdict.json''\<rparr>] [] data_world
     = ([''../data-evil/x'', ''jmdict.json''],
        data_world\<lparr>unpacked := [\<lparr>entry_type = File, entry_path = ''../data-evil/x''\<rparr>,
          \<lparr>entry_type = File, entry_path = ''jmdict.json''\<rparr>]\<rparr>)"
    by (simp add: extract_entries_step sample_entries onentry_def data_world_sel
        del: extract_entries.simps(2))
  ultimately show ?thesis by (simp add: data_world_sel)
qed

lemma escaping_entry_skipped:
  "\<not> startsWith (path_join [d, entry_path e]) d \<Longrightarrow>
   extract_entries d (es1 @ e # es2) filenames w =
     extract_entries d es2 (fst (extract_entries d es1 filenames w))
       (say (PathTraversal (entry_path e)) (snd (extract_entries d es1 filenames w)))"
proof (induction es1 arbitrary: filenames w)
  case Nil
  then show ?case by (simp add: extract_entries_step let_through_def del: extract_entries.simps(2))
next
  case (Cons a es1)
  then show ?case by (simp add: extract_entries_step del: extract_entries.simps(2))
qed

lemma passwd_entry_skipped:
  "extract_entries ''/repo/data''
     [\<lparr>entry_type = File, entry_path = ''../../etc/passwd''\<rparr>,
      \<lparr>entry_type = File, entry_path = ''jmdict.json''\<rparr>] [] data_world
   = ([''jmdict.json''],
      data_world\<lparr>console := [PathTraversal ''../../etc/passwd''],
                  unpacked := [\<lparr>entry_type = File, entry_path = ''jmdict.json''\<rparr>]\<rparr>)"
  by (simp add: extract_entries_step sample_entries onentry_def data_world_sel say_def
      del: extract_entries.simps(2))

subsection \<open>update\<close>

lemma update_after_unpack:
  assumes "getAsset N owner repo (Some prefix) (Some extension) t (say (Updating t) w)
             = (Resolved (Some a), w1)"
    and "downloadAsset N (Some (browser_download_url a)) (path_join [script_dir N, dataFolder])
             (Some (name a)) w1 = (Resolved (Some file), w2)"
    and "unpackAsset N file (path_join [script_dir N, dataFolder]) w2 = (Resolved (Some fs), w3)"
    and "\<not> rm_fails N"
  shows "fst (update N (Some t) w) = Resolved (case fs of [] \<Rightarrow> None | f # rest \<Rightarrow> Some f)"
  using assms by (simp add: update_def await_def Let_def first_or_null_Some)

lemma sample_stages:
  fixes entries
  defines "N \<equiv> sample_net [Response 200 None ''archive''] entries"
  defines "w1 \<equiv> say (Updating ''latest'') data_world"
  defines "w2 \<equiv> say (Downloaded ''jmdict-all-3.5.0.json.tgz'' 0 ''/repo/data/jmdict-all-3.5.0.json.tgz'')
        (put_file ''/repo/data/jmdict-all-3.5.0.json.tgz'' ''archive'' w1)"
  defines "fs \<equiv> map entry_path (filter file_or_directory (filter (let_through ''/repo/data'') entries))"
  shows "getAsset N owner repo (Some prefix) (Some extension) ''latest'' w1
           = (Resolved (Some sample_asset), w1)"
    and "downloadAsset N (Some (browser_download_url sample_asset))
           (path_join [script_dir N, dataFolder]) (Some (name sample_asset)) w1
           = (Resolved (Some ''/repo/data/jmdict-all-3.5.0.json.tgz''), w2)"
    and "unpackAsset N ''/repo/data/jmdict-all-3.5.0.json.tgz''
           (path_join [script_dir N, dataFolder]) w2
           = (Resolved (Some fs), say (Unpacked (length fs) ''/repo/data'')
                (snd (extract_entries ''/repo/data'' entries [] w2)))"
    and "\<not> rm_fails N"
proof -
  show "getAsset N owner repo (Some prefix) (Some extension) ''latest'' w1
           = (Resolved (Some sample_asset), w1)"
    unfolding N_def by (rule sample_getAsset)
  show "downloadAsset N (Some (browser_download_url sample_asset))
           (path_join [script_dir N, dataFolder]) (Some (name sample_asset)) w1
           = (Resolved (Some ''/repo/data/jmdict-all-3.5.0.json.tgz''), w2)"
    unfolding N_def w1_def w2_def sample_folder by (rule sample_download)
  have "files w2 ''/repo/data/jmdict-all-3.5.0.json.tgz'' = Some ''archive''"
    "''/repo/data'' \<in> dirs w2"
    by (simp_all add: w2_def w1_def data_world_sel put_file_def)
  from sample_unpack [OF this, of "[Response 200 None ''archive'']" entries]
  show "unpackAsset N ''/repo/data/jmdict-all-3.5.0.json.tgz''
           (path_join [script_dir N, dataFolder]) w2
           = (Resolved (Some fs), say (Unpacked (length fs) ''/repo/data'')
                (snd (extract_entries ''/repo/data'' entries [] w2)))"
    unfolding N_def sample_folder fs_def
    by (simp add: extract_entries_result)
  show "\<not> rm_fails N" by (simp add: N_def sample_net_sel)
qed

text \<open>
  C5. The name that \<open>update\<close> resolves with is the first name of the extraction
  sequence, and \<open>onentry\<close> records directories as well as files. For an archive whose
  first entry is the directory \<open>jmdict/\<close> and whose second entry is the dictionary
  file, \<open>update\<close> resolves with \<open>jmdict/\<close> and not with the first file-type entry.
\<close>

theorem update_returns_directory:
  "fst (update (sample_net [Response 200 None ''archive'']
          [\<lparr>entry_type = Directory, entry_path = ''jmdict/''\<rparr>,
           \<lparr>entry_type = File, entry_path = ''jmdict/jmdict-all-3.5.0.json''\<rparr>])
        (Some ''latest'') data_world) = Resolved (Some ''jmdict/'')
   \<and> first_file_entry
        [\<lparr>entry_type = Directory, entry_path = ''jmdict/''\<rparr>,
         \<lparr>entry_type = File, entry_path = ''jmdict/jmdict-all-3.5.0.json''\<rparr>]
       = Some ''jmdict/jmdict-all-3.5.0.json''"
proof -
  note st = sample_stages [of "[\<lparr>entry_type = Directory, entry_path = ''jmdict/''\<rparr>,
           \<lparr>entry_type = File, entry_path = ''jmdict/jmdict-all-3.5.0.json''\<rparr>]"]
  from update_after_unpack [OF st]
  show ?thesis
    by (simp add: sample_entries file_or_directory_def first_file_entry_def)
qed

theorem getAsset_first_match_witness:
  "fst (getAsset
     (sample_net [] []
        \<lparr>parse_release := (\<lambda>s. Some \<lparr>assets = Some
           [\<lparr>name = ''jmdict-eng-3.5.0.json.zip'', browser_download_url = ''https://example.org/0''\<rparr>,
            \<lparr>name = ''jmdict-all-3.5.0.json.tgz'', browser_download_url = ''https://example.org/1''\<rparr>,
            \<lparr>name = ''jmdict-all-3.5.0.json.tgz'', browser_download_url = ''https://example.org/2''\<rparr>]\<rparr>)\<rparr>)
     owner repo (Some prefix) (Some extension) ''latest'' data_world)
   = Resolved (Some \<lparr>name = ''jmdict-all-3.5.0.json.tgz'', browser_download_url = ''https://example.org/1''\<rparr>)"
  using getAsset_first_match
    [of "sample_net [] []
        \<lparr>parse_release := (\<lambda>s. Some \<lparr>assets = Some
           [\<lparr>name = ''jmdict-eng-3.5.0.json.zip'', browser_download_url = ''https://example.org/0''\<rparr>,
            \<lparr>name = ''jmdict-all-3.5.0.json.tgz'', browser_download_url = ''https://example.org/1''\<rparr>,
            \<lparr>name = ''jmdict-all-3.5.0.json.tgz'', browser_download_url = ''https://example.org/2''\<rparr>]\<rparr>)\<rparr>"
      owner repo "''latest''" 200 None "''release''"
      "\<lparr>assets = Some
           [\<lparr>name = ''jmdict-eng-3.5.0.json.zip'', browser_download_url = ''https://example.org/0''\<rparr>,
            \<lparr>name = ''jmdict-all-3.5.0.json.tgz'', browser_download_url = ''https://example.org/1''\<rparr>,
            \<lparr>name = ''jmdict-all-3.5.0.json.tgz'', browser_download_url = ''https://example.org/2''\<rparr>]\<rparr>"
      "Some prefix" "Some extension" data_world]
  by (simp add: sample_net_def asset_filter_def truthy_string_def prefix_def extension_def
      startsWith_def endsWith_def)





end
